theory Spec2Isabelle
  imports Main "HOL-Library.Word"
begin

section \<open>Go values used by the login attempt service\<close>

text \<open>
  \<^verbatim>\<open>int64\<close> is a 64-bit word; comparisons on it are signed and read through \<open>sint\<close>.
  A \<^verbatim>\<open>time.Duration\<close> is a number of nanoseconds and a \<^verbatim>\<open>time.Time\<close> an instant, again
  in nanoseconds; \<^verbatim>\<open>t.Add(d)\<close> is \<open>t + d\<close>. The durations of this package are the
  constants 5 and 10 minutes, far inside the 64-bit range, so both are plain integers.
  A Go \<^verbatim>\<open>error\<close> value carries its message, which its method \<^verbatim>\<open>Error()\<close> returns; the
  nil error is \<open>None\<close>.
\<close>

type_synonym int64 = "64 word"
type_synonym Duration = int
type_synonym Time = int

datatype error = errorString string

fun error_Error :: "error \<Rightarrow> string" where
  "error_Error (errorString m) = m"

definition Minute :: Duration where
  "Minute = 60 * 1000000000"

definition time_Add :: "Time \<Rightarrow> Duration \<Rightarrow> Time" where
  "time_Add t d = t + d"

section \<open>pkg/services/loginattempt/loginattemptimpl/login_attempt.go\<close>

subsection \<open>Constants, commands and queries\<close>

definition maxInvalidLoginAttempts :: int64 where
  "maxInvalidLoginAttempts = 5"

definition loginAttemptsWindow :: Duration where
  "loginAttemptsWindow = Minute * 5"

record CreateLoginAttemptCommand =
  Username :: string
  IpAddress :: string

record GetUserLoginAttemptCountQuery =
  Username :: string
  Since :: Time

record DeleteOldLoginAttemptsCommand =
  OlderThan :: Time

record Cfg =
  DisableBruteForceLoginProtection :: bool

subsection \<open>The world outside the service\<close>

text \<open>
  Everything the service does to its surroundings is written into a trace, in the order in
  which it happens: every reading of the clock, the ticker it starts, every call of a
  method of the \<^verbatim>\<open>store\<close> interface, every call of the server lock and every line handed
  to the logger. The trace is what the frame properties below are stated on.
\<close>

datatype logval = LString string | LInt64 int64 | LError error

datatype event =
    TimeNow Time
  | NewTicker Duration
  | CreateLoginAttemptCall CreateLoginAttemptCommand
  | GetUserLoginAttemptCountCall GetUserLoginAttemptCountQuery
  | DeleteOldLoginAttemptsCall DeleteOldLoginAttemptsCommand
  | LockAndExecuteCall string Duration
  | LogError string "(string \<times> logval) list"
  | LogDebug string "(string \<times> logval) list"

text \<open>
  The world holds the state \<open>db\<close> behind the store (of any type \<open>'s\<close>), the clock and the
  trace. \<open>clock w n\<close> is what the \<open>n\<close>-th call of \<^verbatim>\<open>time.Now()\<close> returns and \<open>samples w\<close>
  counts the calls made so far, so two readings of the clock are two different samples.
\<close>

record 's world =
  db :: 's
  clock :: "nat \<Rightarrow> Time"
  samples :: nat
  trace :: "event list"

definition emit :: "event \<Rightarrow> 's world \<Rightarrow> 's world" where
  "emit e w = w\<lparr>trace := trace w @ [e]\<rparr>"

definition time_Now :: "'s world \<Rightarrow> Time \<times> 's world" where
  "time_Now w =
     (let t = clock w (samples w)
      in (t, emit (TimeNow t) (w\<lparr>samples := Suc (samples w)\<rparr>)))"

definition logger_Error :: "string \<Rightarrow> (string \<times> logval) list \<Rightarrow> 's world \<Rightarrow> 's world" where
  "logger_Error msg ctx w = emit (LogError msg ctx) w"

definition logger_Debug :: "string \<Rightarrow> (string \<times> logval) list \<Rightarrow> 's world \<Rightarrow> 's world" where
  "logger_Debug msg ctx w = emit (LogDebug msg ctx) w"

subsection \<open>The store interface, the server lock and the service\<close>

text \<open>
  \<^verbatim>\<open>store\<close> is an interface: the service works with any implementation, so the three
  methods are fields of a record of functions on the state behind the store. A method that
  returns \<^verbatim>\<open>(int64, error)\<close> returns both values, as in Go. The context argument is
  handed on unchanged and decides nothing in this file, so it is left out; the cancellation
  of the context of \<^verbatim>\<open>Run\<close> is an event of its loop (below).
\<close>

record 's store =
  CreateLoginAttempt :: "CreateLoginAttemptCommand \<Rightarrow> 's \<Rightarrow> error option \<times> 's"
  GetUserLoginAttemptCount ::
    "GetUserLoginAttemptCountQuery \<Rightarrow> 's \<Rightarrow> (int64 \<times> error option) \<times> 's"
  DeleteOldLoginAttempts ::
    "DeleteOldLoginAttemptsCommand \<Rightarrow> 's \<Rightarrow> (int64 \<times> error option) \<times> 's"

text \<open>
  \<^verbatim>\<open>serverlock.ServerLockService\<close> is not part of these sources. Its method
  \<^verbatim>\<open>LockAndExecute(ctx, actionName, maxInterval, fn) error\<close> is a parameter of the service:
  any function that gets the name, the duration and the action, and may run the action on
  the world.
\<close>

type_synonym 's ServerLockService =
  "string \<Rightarrow> Duration \<Rightarrow> ('s world \<Rightarrow> 's world) \<Rightarrow> 's world \<Rightarrow> error option \<times> 's world"

record 's Service =
  store :: "'s store"
  cfg :: Cfg
  lock :: "'s ServerLockService"

text \<open>The calls of the interface methods, each written into the trace before it runs.\<close>

definition store_CreateLoginAttempt ::
  "'s Service \<Rightarrow> CreateLoginAttemptCommand \<Rightarrow> 's world \<Rightarrow> error option \<times> 's world" where
  "store_CreateLoginAttempt s cmd w =
     (let w1 = emit (CreateLoginAttemptCall cmd) w;
          (err, d) = CreateLoginAttempt (store s) cmd (db w1)
      in (err, w1\<lparr>db := d\<rparr>))"

definition store_GetUserLoginAttemptCount ::
  "'s Service \<Rightarrow> GetUserLoginAttemptCountQuery \<Rightarrow> 's world
     \<Rightarrow> (int64 \<times> error option) \<times> 's world" where
  "store_GetUserLoginAttemptCount s q w =
     (let w1 = emit (GetUserLoginAttemptCountCall q) w;
          (r, d) = GetUserLoginAttemptCount (store s) q (db w1)
      in (r, w1\<lparr>db := d\<rparr>))"

definition store_DeleteOldLoginAttempts ::
  "'s Service \<Rightarrow> DeleteOldLoginAttemptsCommand \<Rightarrow> 's world
     \<Rightarrow> (int64 \<times> error option) \<times> 's world" where
  "store_DeleteOldLoginAttempts s cmd w =
     (let w1 = emit (DeleteOldLoginAttemptsCall cmd) w;
          (r, d) = DeleteOldLoginAttempts (store s) cmd (db w1)
      in (r, w1\<lparr>db := d\<rparr>))"

definition lock_LockAndExecute ::
  "'s Service \<Rightarrow> string \<Rightarrow> Duration \<Rightarrow> ('s world \<Rightarrow> 's world) \<Rightarrow> 's world
     \<Rightarrow> error option \<times> 's world" where
  "lock_LockAndExecute s actionName maxInterval fn w =
     lock s actionName maxInterval fn (emit (LockAndExecuteCall actionName maxInterval) w)"

subsection \<open>Add and Validate\<close>

definition Add :: "'s Service \<Rightarrow> string \<Rightarrow> string \<Rightarrow> 's world \<Rightarrow> error option \<times> 's world" where
  "Add s username IPAddress w =
     (if DisableBruteForceLoginProtection (cfg s) then (None, w)
      else store_CreateLoginAttempt s
             \<lparr>CreateLoginAttemptCommand.Username = username, IpAddress = IPAddress\<rparr> w)"

definition Validate ::
  "'s Service \<Rightarrow> string \<Rightarrow> 's world \<Rightarrow> (bool \<times> error option) \<times> 's world" where
  "Validate s username w =
     (if DisableBruteForceLoginProtection (cfg s) then ((True, None), w)
      else
        let (now, w1) = time_Now w;
            loginAttemptCountQuery =
              \<lparr>GetUserLoginAttemptCountQuery.Username = username,
               Since = time_Add now (- loginAttemptsWindow)\<rparr>;
            ((count, err), w2) = store_GetUserLoginAttemptCount s loginAttemptCountQuery w1
        in case err of
             Some e \<Rightarrow> ((False, Some e), w2)
           | None \<Rightarrow>
               if sint maxInvalidLoginAttempts \<le> sint count then ((False, None), w2)
               else ((True, None), w2))"

subsection \<open>cleanup and Run\<close>

text \<open>
  \<open>cleanup_fn\<close> is the function literal that \<^verbatim>\<open>cleanup\<close> hands to the lock.
\<close>

definition cleanup_fn :: "'s Service \<Rightarrow> 's world \<Rightarrow> 's world" where
  "cleanup_fn s w =
     (let (now, w1) = time_Now w;
          cmd = \<lparr>OlderThan = time_Add now (Minute * (- 10))\<rparr>;
          ((deletedLogs, err), w2) = store_DeleteOldLoginAttempts s cmd w1
      in case err of
           Some e \<Rightarrow>
             logger_Error ''Problem deleting expired login attempts''
               [(''error'', LString (error_Error e))] w2
         | None \<Rightarrow>
             logger_Debug ''Deleted expired login attempts''
               [(''rows affected'', LInt64 deletedLogs)] w2)"

definition cleanup :: "'s Service \<Rightarrow> 's world \<Rightarrow> 's world" where
  "cleanup s w =
     (let (err, w1) =
            lock_LockAndExecute s ''delete old login attempts'' (Minute * 10) (cleanup_fn s) w
      in case err of
           Some e \<Rightarrow>
             logger_Error ''failed to lock and execute cleanup of old login attempts''
               [(''error'', LError e)] w1
         | None \<Rightarrow> w1)"

text \<open>
  The loop of \<^verbatim>\<open>Run\<close> waits in a \<^verbatim>\<open>select\<close> for the ticker or for the context. What it
  receives, in order, is a list of signals: \<open>Tick\<close> for a value on \<^verbatim>\<open>ticker.C\<close>, and
  \<open>Done e\<close> for the closed channel \<^verbatim>\<open>ctx.Done()\<close>, where \<open>e\<close> is what \<^verbatim>\<open>ctx.Err()\<close> then
  returns. The result is \<open>Some r\<close> when \<^verbatim>\<open>Run\<close> returns \<open>r\<close>, and \<open>None\<close> when the signals
  are used up and the loop still waits.
\<close>

datatype signal = Tick | Done error

fun Run_loop :: "'s Service \<Rightarrow> signal list \<Rightarrow> 's world \<Rightarrow> error option option \<times> 's world" where
  "Run_loop s [] w = (None, w)"
| "Run_loop s (Tick # sigs) w = Run_loop s sigs (cleanup s w)"
| "Run_loop s (Done e # sigs) w = (Some (Some e), w)"

definition Run :: "'s Service \<Rightarrow> signal list \<Rightarrow> 's world \<Rightarrow> error option option \<times> 's world" where
  "Run s sigs w =
     (if DisableBruteForceLoginProtection (cfg s) then (Some None, w)
      else Run_loop s sigs (emit (NewTicker (Minute * 10)) w))"

subsection \<open>The collaborators that are not part of these sources\<close>

text \<open>
  Modelled from the spec: the implementation of the \<^verbatim>\<open>store\<close> interface (the SQL store
  that \<^verbatim>\<open>ProvideService\<close> builds) is missing from the sources. Section 3 of the
  specification gives what it holds: attempt records (username, sourceAddress, occurredAt),
  created and deleted but never changed. \<open>store_now\<close> is the clock of the store and
  \<open>failing\<close> the StoreError with which it answers while it cannot be reached.
\<close>

record AttemptRecord =
  username :: string
  sourceAddress :: string
  occurredAt :: Time

record AttemptStore =
  records :: "AttemptRecord list"
  store_now :: Time
  failing :: "error option"

text \<open>
  Modelled from the spec: Create(record) of section 4.2, missing from the sources. It
  writes one record with occurredAt = now, or fails with the StoreError and writes nothing.
\<close>

definition Create :: "CreateLoginAttemptCommand \<Rightarrow> AttemptStore \<Rightarrow> error option \<times> AttemptStore" where
  "Create cmd d =
     (case failing d of
        Some e \<Rightarrow> (Some e, d)
      | None \<Rightarrow>
          (None, d\<lparr>records := records d @
             [\<lparr>username = CreateLoginAttemptCommand.Username cmd,
               sourceAddress = IpAddress cmd, occurredAt = store_now d\<rparr>]\<rparr>))"

text \<open>
  Modelled from the spec: CountSince(username, since) of section 4.2, missing from the
  sources: an integer count, or a StoreError. For the boundary section 4.2 points to section
  8, where an attempt at exactly now - 5min is excluded ("strictly within"), and section 4.1
  asks for strict comparisons: a record counts when its user name is the one asked for and
  \<open>since < occurredAt\<close>. (The invariant of section 3 writes this window with \<open>\<ge>\<close>; the
  two differ at the one instant \<open>occurredAt = since\<close>.)
\<close>

definition within_window :: "string \<Rightarrow> Time \<Rightarrow> AttemptRecord \<Rightarrow> bool" where
  "within_window u since r \<longleftrightarrow> username r = u \<and> since < occurredAt r"

definition CountSince ::
  "GetUserLoginAttemptCountQuery \<Rightarrow> AttemptStore \<Rightarrow> (int64 \<times> error option) \<times> AttemptStore" where
  "CountSince q d =
     (case failing d of
        Some e \<Rightarrow> ((0, Some e), d)
      | None \<Rightarrow>
          ((word_of_nat (length (filter
              (within_window (GetUserLoginAttemptCountQuery.Username q) (Since q)) (records d))),
            None), d))"

text \<open>
  Modelled from the spec: DeleteOlderThan(threshold) of section 4.2, missing from the
  sources. Section 8: it removes exactly the records with occurredAt strictly before the
  threshold, leaves all others and returns the number of rows removed, or fails with the
  StoreError and removes nothing.
\<close>

definition DeleteOlderThan ::
  "DeleteOldLoginAttemptsCommand \<Rightarrow> AttemptStore \<Rightarrow> (int64 \<times> error option) \<times> AttemptStore" where
  "DeleteOlderThan cmd d =
     (case failing d of
        Some e \<Rightarrow> ((0, Some e), d)
      | None \<Rightarrow>
          ((word_of_nat (length (filter (\<lambda>r. occurredAt r < OlderThan cmd) (records d))), None),
           d\<lparr>records := filter (\<lambda>r. \<not> occurredAt r < OlderThan cmd) (records d)\<rparr>))"

text \<open>Modelled from the spec: the three operations as the \<^verbatim>\<open>store\<close> of the service.\<close>

definition attemptStore :: "AttemptStore store" where
  "attemptStore =
     \<lparr>CreateLoginAttempt = Create,
      GetUserLoginAttemptCount = CountSince,
      DeleteOldLoginAttempts = DeleteOlderThan\<rparr>"

text \<open>
  Modelled from the spec: \<^verbatim>\<open>ServerLockService.LockAndExecute\<close> is missing from the
  sources. Section 4.3 of the specification: LockAndExecute(lockName, maxHoldDuration,
  action) returns a StoreError or nil; when the lock cannot be acquired because it is held
  elsewhere, the call returns normally, without invoking the action and without error; the
  action runs when the lock is acquired. Whether the lock is acquired is decided outside
  this service: \<open>decide\<close> is that decision, for the name, the duration and the moment of
  the request.
\<close>

datatype lock_outcome = Acquired | HeldElsewhere | LockError error

definition LockAndExecute_spec ::
  "(string \<Rightarrow> Duration \<Rightarrow> 's world \<Rightarrow> lock_outcome) \<Rightarrow> 's ServerLockService" where
  "LockAndExecute_spec decide lockName maxHoldDuration action w =
     (case decide lockName maxHoldDuration w of
        Acquired \<Rightarrow> (None, action w)
      | HeldElsewhere \<Rightarrow> (None, w)
      | LockError e \<Rightarrow> (Some e, w))"

subsection \<open>What a list of signals holds\<close>

text \<open>
  The cancellation that the loop of \<^verbatim>\<open>Run\<close> meets first, when there is one, and the number
  of ticks it receives before that.
\<close>

fun first_Done :: "signal list \<Rightarrow> error option" where
  "first_Done [] = None"
| "first_Done (Tick # sigs) = first_Done sigs"
| "first_Done (Done e # sigs) = Some e"

fun ticks_before_Done :: "signal list \<Rightarrow> nat" where
  "ticks_before_Done [] = 0"
| "ticks_before_Done (Tick # sigs) = Suc (ticks_before_Done sigs)"
| "ticks_before_Done (Done e # sigs) = 0"

subsection \<open>ProvideService\<close>

text \<open>
  \<^verbatim>\<open>ProvideService\<close> builds the service on the SQL store, the configuration and the
  lock it is given; the store it builds is the one modelled above.
\<close>

definition ProvideService :: "Cfg \<Rightarrow> AttemptStore ServerLockService \<Rightarrow> AttemptStore Service" where
  "ProvideService c l = \<lparr>store = attemptStore, cfg = c, lock = l\<rparr>"

subsection \<open>Reading the trace\<close>

fun is_store_call :: "event \<Rightarrow> bool" where
  "is_store_call (CreateLoginAttemptCall _) = True"
| "is_store_call (GetUserLoginAttemptCountCall _) = True"
| "is_store_call (DeleteOldLoginAttemptsCall _) = True"
| "is_store_call _ = False"

section \<open>pkg/tsdb/cloudwatch/routes/dimension_keys.go\<close>

text \<open>
  The handler is glue between packages that are not part of these sources: \<^verbatim>\<open>resources\<close>
  (parsing the request), \<^verbatim>\<open>services\<close> (the lookups), \<^verbatim>\<open>models\<close> (the request context,
  the service interface and \<^verbatim>\<open>HttpError\<close>) and \<^verbatim>\<open>encoding/json\<close>. What it imports from
  them is a record of parameters, each with the shape of its use in the handler. A Go slice
  or pointer that may be nil is an \<open>option\<close>; a pair \<^verbatim>\<open>(value, error)\<close> is returned whole.
  Calling a method of a nil interface value panics, which is the outcome \<open>Panic\<close>.
\<close>

type_synonym bytes = string
type_synonym url_Values = "(string \<times> string list) list"

definition StatusBadRequest :: int where
  "StatusBadRequest = 400"

definition StatusInternalServerError :: int where
  "StatusInternalServerError = 500"

record HttpError =
  Message :: string
  Error :: string
  StatusCode :: int

record 'mcp RequestContext =
  MetricsClientProvider :: 'mcp

datatype 'a outcome = Returns 'a | Panic

record ('req, 'ty, 'mcp, 'svc) deps =
  GetDimensionKeysRequest :: "url_Values \<Rightarrow> 'req \<times> error option"
  Region :: "'req \<Rightarrow> string"
  Namespace :: "'req \<Rightarrow> string"
  Type :: "'req \<Rightarrow> 'ty"
  FilterDimensionKeysRequest :: 'ty
  NewListMetricsService :: "'mcp \<Rightarrow> 'svc option"
  GetDimensionKeysByDimensionFilter :: "'svc \<Rightarrow> 'req \<Rightarrow> string list option \<times> error option"
  GetHardCodedDimensionKeysByNamespace :: "string \<Rightarrow> string list option \<times> error option"
  json_Marshal :: "string list option \<Rightarrow> bytes option \<times> error option"
  NewHttpError :: "string \<Rightarrow> int \<Rightarrow> error \<Rightarrow> HttpError option"

text \<open>
  \<^verbatim>\<open>newListMetricsService\<close> is a package variable that tests may replace; this is the
  function it is initialised with.
\<close>

definition newListMetricsService ::
  "('req, 'ty, 'mcp, 'svc) deps \<Rightarrow> 'pc \<Rightarrow> ('pc \<Rightarrow> string \<Rightarrow> 'mcp RequestContext \<times> error option)
     \<Rightarrow> string \<Rightarrow> 'svc option \<times> error option" where
  "newListMetricsService im pluginCtx reqCtxFactory region =
     (case reqCtxFactory pluginCtx region of
        (metricClient, Some err) \<Rightarrow> (None, Some err)
      | (metricClient, None) \<Rightarrow>
          (NewListMetricsService im (MetricsClientProvider metricClient), None))"

text \<open>
  The handler, with the current value \<open>nlms\<close> of the variable \<^verbatim>\<open>newListMetricsService\<close>
  as an argument.
\<close>

definition DimensionKeysHandler ::
  "('req, 'ty, 'mcp, 'svc) deps \<Rightarrow> ('pc \<Rightarrow> 'f \<Rightarrow> string \<Rightarrow> 'svc option \<times> error option)
     \<Rightarrow> 'pc \<Rightarrow> 'f \<Rightarrow> url_Values \<Rightarrow> (bytes option \<times> HttpError option) outcome" where
  "DimensionKeysHandler im nlms pluginCtx reqCtxFactory parameters =
     (case GetDimensionKeysRequest im parameters of
        (dimensionKeysRequest, Some err) \<Rightarrow>
          Returns (None, NewHttpError im ''error in DimensionKeyHandler'' StatusBadRequest err)
      | (dimensionKeysRequest, None) \<Rightarrow>
          (case nlms pluginCtx reqCtxFactory (Region im dimensionKeysRequest) of
             (service, Some err) \<Rightarrow>
               Returns (None,
                 NewHttpError im ''error in DimensionKeyHandler'' StatusInternalServerError err)
           | (service, None) \<Rightarrow>
               (case (if Type im dimensionKeysRequest = FilterDimensionKeysRequest im
                      then (case service of
                              None \<Rightarrow> Panic
                            | Some svc \<Rightarrow>
                                Returns (GetDimensionKeysByDimensionFilter im svc
                                           dimensionKeysRequest))
                      else Returns (GetHardCodedDimensionKeysByNamespace im
                                      (Namespace im dimensionKeysRequest))) of
                  Panic \<Rightarrow> Panic
                | Returns (response, Some err) \<Rightarrow>
                    Returns (None,
                      NewHttpError im ''error in DimensionKeyHandler''
                        StatusInternalServerError err)
                | Returns (response, None) \<Rightarrow>
                    (case json_Marshal im response of
                       (jsonResponse, Some err) \<Rightarrow>
                         Returns (None,
                           NewHttpError im ''error in DimensionKeyHandler''
                             StatusInternalServerError err)
                     | (jsonResponse, None) \<Rightarrow> Returns (jsonResponse, None)))))"

section \<open>Concrete inputs\<close>

text \<open>
  Attempts of one user at given instants, a world whose clock starts at a given instant and
  moves on by a nanosecond with every reading, and a lock that is acquired at the first
  request and out of reach afterwards.
\<close>

definition attempts :: "string \<Rightarrow> Time list \<Rightarrow> AttemptRecord list" where
  "attempts u ts = map (\<lambda>t. \<lparr>username = u, sourceAddress = ''10.0.0.1'', occurredAt = t\<rparr>) ts"

definition world_at :: "Time \<Rightarrow> AttemptRecord list \<Rightarrow> error option \<Rightarrow> AttemptStore world" where
  "world_at t rs f =
     \<lparr>db = \<lparr>records = rs, store_now = t, failing = f\<rparr>,
      clock = (\<lambda>n. t + int n), samples = 0, trace = []\<rparr>"

definition protection :: "bool \<Rightarrow> Cfg" where
  "protection on = \<lparr>DisableBruteForceLoginProtection = \<not> on\<rparr>"

definition first_only :: "string \<Rightarrow> Duration \<Rightarrow> AttemptStore world \<Rightarrow> lock_outcome" where
  "first_only n d w =
     (if samples w = 0 then Acquired else LockError (errorString ''server lock unavailable''))"

text \<open>
  For the handler: a request is its region, its namespace and whether it has a dimension
  filter; parsing reads them from the parameters and fails without a region; the lookups
  return fixed keys; the encoder is a stand-in for \<^verbatim>\<open>json.Marshal\<close> that writes key names
  as they are, which is right for names that need no escaping only.
\<close>

fun lookup_first :: "url_Values \<Rightarrow> string \<Rightarrow> string option" where
  "lookup_first [] k = None"
| "lookup_first ((k', vs) # ps) k =
     (if k' = k then (case vs of [] \<Rightarrow> None | v # _ \<Rightarrow> Some v) else lookup_first ps k)"

definition parse_plain :: "url_Values \<Rightarrow> (string \<times> string \<times> bool) \<times> error option" where
  "parse_plain ps =
     (case lookup_first ps ''region'' of
        None \<Rightarrow> (([], [], False), Some (errorString ''region is required''))
      | Some r \<Rightarrow>
          ((r, (case lookup_first ps ''namespace'' of None \<Rightarrow> [] | Some n \<Rightarrow> n),
            lookup_first ps ''dimensionFilters'' \<noteq> None), None))"

fun join_quoted :: "string list \<Rightarrow> string" where
  "join_quoted [] = []"
| "join_quoted [x] = [CHR 0x22] @ x @ [CHR 0x22]"
| "join_quoted (x # xs) = [CHR 0x22] @ x @ [CHR 0x22] @ '','' @ join_quoted xs"

definition marshal_plain :: "string list option \<Rightarrow> bytes option \<times> error option" where
  "marshal_plain v =
     (case v of
        None \<Rightarrow> (Some ''null'', None)
      | Some xs \<Rightarrow> (Some (''['' @ join_quoted xs @ '']''), None))"

definition plain_deps :: "(string \<times> string \<times> bool, bool, unit, unit) deps" where
  "plain_deps =
     \<lparr>GetDimensionKeysRequest = parse_plain,
      Region = fst,
      Namespace = (\<lambda>r. fst (snd r)),
      Type = (\<lambda>r. snd (snd r)),
      FilterDimensionKeysRequest = True,
      NewListMetricsService = (\<lambda>_. Some ()),
      GetDimensionKeysByDimensionFilter = (\<lambda>_ _. (Some [''InstanceId''], None)),
      GetHardCodedDimensionKeysByNamespace =
        (\<lambda>n. if n = ''AWS/EC2'' then (Some [''AutoScalingGroupName'', ''InstanceId''], None)
             else (None, Some (errorString ''unable to find dimensions for namespace''))),
      json_Marshal = marshal_plain,
      NewHttpError =
        (\<lambda>message statusCode err.
           Some \<lparr>Message = message, Error = error_Error err, StatusCode = statusCode\<rparr>)\<rparr>"

text \<open>The same, with an encoder that fails on every value.\<close>

definition unencodable_deps :: "(string \<times> string \<times> bool, bool, unit, unit) deps" where
  "unencodable_deps =
     plain_deps\<lparr>json_Marshal := (\<lambda>v. (None, Some (errorString ''json: unsupported value'')))\<rparr>"

definition plain_factory :: "unit \<Rightarrow> string \<Rightarrow> unit RequestContext \<times> error option" where
  "plain_factory pc region =
     (\<lparr>MetricsClientProvider = ()\<rparr>,
      if region = ''us-east-1'' then None else Some (errorString ''no client for region''))"

section \<open>Properties\<close>

subsection \<open>Unfolding the service\<close>

lemma Minute_ns: "Minute = 60000000000"
  by (simp add: Minute_def)

lemma emit_simps [simp]:
  "trace (emit e w) = trace w @ [e]"
  "db (emit e w) = db w"
  "clock (emit e w) = clock w"
  "samples (emit e w) = samples w"
  by (simp_all add: emit_def)

text \<open>
  With protection enabled, \<^verbatim>\<open>Validate\<close> reads the clock once, asks the store once and
  decides on the answer; \<^verbatim>\<open>Add\<close> hands the command to the store.
\<close>

lemma Validate_enabled:
  assumes "\<not> DisableBruteForceLoginProtection (cfg s)"
  shows "Validate s u w =
    (let t = clock w (samples w);
         q = \<lparr>GetUserLoginAttemptCountQuery.Username = u, Since = t - 5 * Minute\<rparr>;
         w1 = emit (GetUserLoginAttemptCountCall q)
                (emit (TimeNow t) (w\<lparr>samples := Suc (samples w)\<rparr>));
         r = GetUserLoginAttemptCount (store s) q (db w)
     in ((case snd (fst r) of
            Some e \<Rightarrow> (False, Some e)
          | None \<Rightarrow> (sint (fst (fst r)) < 5, None)),
         w1\<lparr>db := snd r\<rparr>))"
  using assms
  by (auto simp: Validate_def time_Now_def store_GetUserLoginAttemptCount_def Let_def
      time_Add_def loginAttemptsWindow_def maxInvalidLoginAttempts_def mult.commute
      split: prod.splits option.splits)

lemma Add_enabled:
  assumes "\<not> DisableBruteForceLoginProtection (cfg s)"
  shows "Add s u ip w =
    (let cmd = \<lparr>CreateLoginAttemptCommand.Username = u, IpAddress = ip\<rparr>;
         r = CreateLoginAttempt (store s) cmd (db w)
     in (fst r, (emit (CreateLoginAttemptCall cmd) w)\<lparr>db := snd r\<rparr>))"
  using assms
  by (auto simp: Add_def store_CreateLoginAttempt_def Let_def split: prod.splits)

lemma cleanup_fn_unfold:
  "cleanup_fn s w =
    (let t = clock w (samples w);
         cmd = \<lparr>OlderThan = t - 10 * Minute\<rparr>;
         r = DeleteOldLoginAttempts (store s) cmd (db w);
         w2 = (emit (DeleteOldLoginAttemptsCall cmd)
                 (emit (TimeNow t) (w\<lparr>samples := Suc (samples w)\<rparr>)))\<lparr>db := snd r\<rparr>
     in emit (case snd (fst r) of
                Some e \<Rightarrow>
                  LogError ''Problem deleting expired login attempts''
                    [(''error'', LString (error_Error e))]
              | None \<Rightarrow>
                  LogDebug ''Deleted expired login attempts''
                    [(''rows affected'', LInt64 (fst (fst r)))]) w2)"
  by (auto simp: cleanup_fn_def time_Now_def store_DeleteOldLoginAttempts_def Let_def
      time_Add_def logger_Error_def logger_Debug_def mult.commute
      split: prod.splits option.splits)

lemma cleanup_fn_trace:
  "\<exists>ev. trace (cleanup_fn s v) =
     trace v @ [TimeNow (clock v (samples v)),
       DeleteOldLoginAttemptsCall \<lparr>OlderThan = clock v (samples v) - 10 * Minute\<rparr>, ev]"
  by (simp add: cleanup_fn_unfold Let_def)

lemma cleanup_fn_samples: "samples (cleanup_fn s v) = Suc (samples v)"
  by (simp add: cleanup_fn_unfold Let_def)

lemma cleanup_lock_error:
  assumes "lock s ''delete old login attempts'' (10 * Minute) (cleanup_fn s)
             (emit (LockAndExecuteCall ''delete old login attempts'' (10 * Minute)) w)
           = (Some e, w1)"
  shows "cleanup s w =
           emit (LogError ''failed to lock and execute cleanup of old login attempts''
                   [(''error'', LError e)]) w1"
  using assms by (simp add: cleanup_def lock_LockAndExecute_def logger_Error_def mult.commute)

lemma cleanup_spec_lock:
  assumes "lock s = LockAndExecute_spec decide"
  shows "cleanup s v =
    (let v1 = emit (LockAndExecuteCall ''delete old login attempts'' (10 * Minute)) v
     in case decide ''delete old login attempts'' (10 * Minute) v1 of
          Acquired \<Rightarrow> cleanup_fn s v1
        | HeldElsewhere \<Rightarrow> v1
        | LockError e \<Rightarrow>
            emit (LogError ''failed to lock and execute cleanup of old login attempts''
                    [(''error'', LError e)]) v1)"
  using assms
  by (simp add: cleanup_def lock_LockAndExecute_def LockAndExecute_spec_def Let_def
      logger_Error_def mult.commute split: lock_outcome.splits)

text \<open>The loop: what it returns, and the world it leaves.\<close>

lemma Run_loop_fst:
  "fst (Run_loop s sigs w) = (case first_Done sigs of None \<Rightarrow> None | Some e \<Rightarrow> Some (Some e))"
  by (induction s sigs w rule: Run_loop.induct) simp_all

lemma Run_loop_snd:
  "snd (Run_loop s sigs w) = (cleanup s ^^ ticks_before_Done sigs) w"
  by (induction s sigs w rule: Run_loop.induct) (simp_all add: funpow_swap1)

text \<open>Nothing after the check at the entry of \<^verbatim>\<open>Run\<close> reads the configuration.\<close>

lemma cleanup_fn_cfg: "cleanup_fn (s\<lparr>cfg := c\<rparr>) = cleanup_fn s"
  by (rule ext) (simp add: cleanup_fn_unfold)

lemma cleanup_cfg: "cleanup (s\<lparr>cfg := c\<rparr>) = cleanup s"
  by (rule ext) (simp add: cleanup_def lock_LockAndExecute_def cleanup_fn_cfg)

lemma Run_loop_cfg: "Run_loop (s\<lparr>cfg := c\<rparr>) sigs w = Run_loop s sigs w"
proof (induction sigs arbitrary: w)
  case Nil
  show ?case by simp
next
  case (Cons x sigs)
  then show ?case by (cases x) (simp_all add: cleanup_cfg)
qed

text \<open>The modelled store answers a count without changing its state.\<close>

lemma CountSince_reads: "snd (CountSince q d) = d"
  by (simp add: CountSince_def split: option.splits)

lemma ProvideService_simps [simp]:
  "store (ProvideService c l) = attemptStore"
  "cfg (ProvideService c l) = c"
  "lock (ProvideService c l) = l"
  by (simp_all add: ProvideService_def)

lemma attemptStore_simps [simp]:
  "CreateLoginAttempt attemptStore = Create"
  "GetUserLoginAttemptCount attemptStore = CountSince"
  "DeleteOldLoginAttempts attemptStore = DeleteOlderThan"
  by (simp_all add: attemptStore_def)

subsection \<open>Validate and Add\<close>

text \<open>
  C1. With brute-force protection enabled, \<^verbatim>\<open>Validate\<close> allows the login exactly when the
  count that the store returns for the user name and the window starting five minutes
  before now is below 5 (as a signed 64-bit number): fewer than 5 attempts are allowed, 5 or
  more are not, and exactly 5 is not.
\<close>

theorem Validate_allowed_iff_below_ceiling:
  assumes "\<not> DisableBruteForceLoginProtection (cfg s)"
    and "GetUserLoginAttemptCount (store s)
           \<lparr>GetUserLoginAttemptCountQuery.Username = u,
            Since = clock w (samples w) - 5 * Minute\<rparr> (db w)
         = ((count, None), d)"
  shows "fst (Validate s u w) = (sint count < 5, None)"
  using assms by (simp add: Validate_enabled Let_def)

text \<open>Five attempts in the window: not allowed. Four: allowed.\<close>

theorem Validate_allowed_iff_below_ceiling_witness:
  "fst (Validate (ProvideService (protection True) (LockAndExecute_spec first_only)) ''alice''
          (world_at 1000000000000
             (attempts ''alice''
                [900000000000, 900000000001, 900000000002, 900000000003, 900000000004])
             None))
     = (False, None)
   \<and> fst (Validate (ProvideService (protection True) (LockAndExecute_spec first_only)) ''alice''
          (world_at 1000000000000
             (attempts ''alice'' [900000000000, 900000000001, 900000000002, 900000000003])
             None))
     = (True, None)"
proof -
  let ?s = "ProvideService (protection True) (LockAndExecute_spec first_only)"
  let ?w5 = "world_at 1000000000000
               (attempts ''alice''
                  [900000000000, 900000000001, 900000000002, 900000000003, 900000000004])
               None"
  let ?w4 = "world_at 1000000000000
               (attempts ''alice'' [900000000000, 900000000001, 900000000002, 900000000003])
               None"
  have on: "\<not> DisableBruteForceLoginProtection (cfg ?s)"
    by (simp add: protection_def)
  have c5: "GetUserLoginAttemptCount (store ?s)
              \<lparr>GetUserLoginAttemptCountQuery.Username = ''alice'',
               Since = clock ?w5 (samples ?w5) - 5 * Minute\<rparr> (db ?w5) = ((5, None), db ?w5)"
    by (simp add: world_at_def attempts_def CountSince_def within_window_def Minute_ns)
  have c4: "GetUserLoginAttemptCount (store ?s)
              \<lparr>GetUserLoginAttemptCountQuery.Username = ''alice'',
               Since = clock ?w4 (samples ?w4) - 5 * Minute\<rparr> (db ?w4) = ((4, None), db ?w4)"
    by (simp add: world_at_def attempts_def CountSince_def within_window_def Minute_ns)
  show ?thesis
    using Validate_allowed_iff_below_ceiling [OF on c5]
      Validate_allowed_iff_below_ceiling [OF on c4]
    by simp
qed

text \<open>
  C2. With brute-force protection disabled, \<^verbatim>\<open>Add\<close> returns nil and \<^verbatim>\<open>Validate\<close> returns
  true, and both leave the world as it was: no call of the store, no reading of the clock,
  whatever the store holds.
\<close>

theorem disabled_Add_Validate_leave_world:
  assumes "DisableBruteForceLoginProtection (cfg s)"
  shows "Add s u ip w = (None, w) \<and> Validate s u w = ((True, None), w)"
  using assms by (simp add: Add_def Validate_def)

theorem disabled_Add_Validate_leave_world_witness:
  "Add (ProvideService (protection False) (LockAndExecute_spec first_only))
       ''alice'' ''10.0.0.2''
       (world_at 1000000000000
          (attempts ''alice''
             [900000000000, 900000000001, 900000000002, 900000000003, 900000000004])
          None)
     = (None,
        world_at 1000000000000
          (attempts ''alice''
             [900000000000, 900000000001, 900000000002, 900000000003, 900000000004])
          None)
   \<and> Validate (ProvideService (protection False) (LockAndExecute_spec first_only)) ''alice''
       (world_at 1000000000000
          (attempts ''alice''
             [900000000000, 900000000001, 900000000002, 900000000003, 900000000004])
          None)
     = ((True, None),
        world_at 1000000000000
          (attempts ''alice''
             [900000000000, 900000000001, 900000000002, 900000000003, 900000000004])
          None)"
proof -
  have off: "DisableBruteForceLoginProtection
               (cfg (ProvideService (protection False) (LockAndExecute_spec first_only)))"
    by (simp add: protection_def)
  show ?thesis
    by (rule disabled_Add_Validate_leave_world [OF off])
qed

text \<open>
  C3. With protection enabled, an error of the store's create operation is the error that
  \<^verbatim>\<open>Add\<close> returns, and an error of the store's count operation is the error that
  \<^verbatim>\<open>Validate\<close> returns (with allowed = false): the very value, neither wrapped nor dropped.
\<close>

theorem store_errors_returned_unchanged:
  assumes "\<not> DisableBruteForceLoginProtection (cfg s)"
  shows "(CreateLoginAttempt (store s)
            \<lparr>CreateLoginAttemptCommand.Username = u, IpAddress = ip\<rparr> (db w) = (Some e, d)
          \<longrightarrow> fst (Add s u ip w) = Some e)
       \<and> (GetUserLoginAttemptCount (store s)
            \<lparr>GetUserLoginAttemptCountQuery.Username = u,
             Since = clock w (samples w) - 5 * Minute\<rparr> (db w) = ((n, Some e'), d')
          \<longrightarrow> fst (Validate s u w) = (False, Some e'))"
  using assms by (simp add: Validate_enabled Add_enabled Let_def)

theorem store_errors_returned_unchanged_witness:
  "fst (Add (ProvideService (protection True) (LockAndExecute_spec first_only))
          ''alice'' ''10.0.0.2''
          (world_at 1000000000000 [] (Some (errorString ''database is locked''))))
     = Some (errorString ''database is locked'')
   \<and> fst (Validate (ProvideService (protection True) (LockAndExecute_spec first_only)) ''alice''
          (world_at 1000000000000 [] (Some (errorString ''database is locked''))))
     = (False, Some (errorString ''database is locked''))"
proof -
  let ?s = "ProvideService (protection True) (LockAndExecute_spec first_only)"
  let ?w = "world_at 1000000000000 [] (Some (errorString ''database is locked''))"
  have on: "\<not> DisableBruteForceLoginProtection (cfg ?s)"
    by (simp add: protection_def)
  have a: "CreateLoginAttempt (store ?s)
             \<lparr>CreateLoginAttemptCommand.Username = ''alice'', IpAddress = ''10.0.0.2''\<rparr> (db ?w)
           = (Some (errorString ''database is locked''), db ?w)"
    by (simp add: world_at_def Create_def)
  have b: "GetUserLoginAttemptCount (store ?s)
             \<lparr>GetUserLoginAttemptCountQuery.Username = ''alice'',
              Since = clock ?w (samples ?w) - 5 * Minute\<rparr> (db ?w)
           = ((0, Some (errorString ''database is locked'')), db ?w)"
    by (simp add: world_at_def CountSince_def)
  show ?thesis
    using store_errors_returned_unchanged
      [OF on, of "''alice''" "''10.0.0.2''" ?w "errorString ''database is locked''" "db ?w"
         0 "errorString ''database is locked''" "db ?w"] a b
    by blast
qed

subsection \<open>Run and cleanup\<close>

text \<open>
  C4. With protection enabled, whatever the store and the lock do, \<^verbatim>\<open>Run\<close> returns only
  when the context is done, and then it returns \<^verbatim>\<open>ctx.Err()\<close>; while no cancellation has
  arrived it has not returned, and every tick before the cancellation has had its cleanup.
  An error of the lock ends in one line for the logger, and so does an error of the
  store's delete: \<^verbatim>\<open>cleanup\<close> returns nothing to the loop.
\<close>

theorem Run_returns_only_on_cancellation:
  assumes "\<not> DisableBruteForceLoginProtection (cfg s)"
  shows "fst (Run s sigs w) = (case first_Done sigs of None \<Rightarrow> None | Some e \<Rightarrow> Some (Some e))
       \<and> snd (Run s sigs w) =
           (cleanup s ^^ ticks_before_Done sigs) (emit (NewTicker (10 * Minute)) w)
       \<and> (\<forall>e w1 v.
             lock s ''delete old login attempts'' (10 * Minute) (cleanup_fn s)
               (emit (LockAndExecuteCall ''delete old login attempts'' (10 * Minute)) v)
             = (Some e, w1)
           \<longrightarrow> cleanup s v =
                 emit (LogError ''failed to lock and execute cleanup of old login attempts''
                         [(''error'', LError e)]) w1)
       \<and> (\<forall>n e d v.
             DeleteOldLoginAttempts (store s)
               \<lparr>OlderThan = clock v (samples v) - 10 * Minute\<rparr> (db v) = ((n, Some e), d)
           \<longrightarrow> cleanup_fn s v =
                 emit (LogError ''Problem deleting expired login attempts''
                         [(''error'', LString (error_Error e))])
                   ((emit (DeleteOldLoginAttemptsCall
                             \<lparr>OlderThan = clock v (samples v) - 10 * Minute\<rparr>)
                       (emit (TimeNow (clock v (samples v)))
                          (v\<lparr>samples := Suc (samples v)\<rparr>)))\<lparr>db := d\<rparr>))"
proof -
  have a: "fst (Run s sigs w) =
             (case first_Done sigs of None \<Rightarrow> None | Some e \<Rightarrow> Some (Some e))"
    using assms by (simp add: Run_def Run_loop_fst)
  have b: "snd (Run s sigs w) =
             (cleanup s ^^ ticks_before_Done sigs) (emit (NewTicker (10 * Minute)) w)"
    using assms by (simp add: Run_def Run_loop_snd mult.commute)
  have c: "\<forall>e w1 v.
             lock s ''delete old login attempts'' (10 * Minute) (cleanup_fn s)
               (emit (LockAndExecuteCall ''delete old login attempts'' (10 * Minute)) v)
             = (Some e, w1)
           \<longrightarrow> cleanup s v =
                 emit (LogError ''failed to lock and execute cleanup of old login attempts''
                         [(''error'', LError e)]) w1"
    using cleanup_lock_error by blast
  have d: "\<forall>n e d v.
             DeleteOldLoginAttempts (store s)
               \<lparr>OlderThan = clock v (samples v) - 10 * Minute\<rparr> (db v) = ((n, Some e), d)
           \<longrightarrow> cleanup_fn s v =
                 emit (LogError ''Problem deleting expired login attempts''
                         [(''error'', LString (error_Error e))])
                   ((emit (DeleteOldLoginAttemptsCall
                             \<lparr>OlderThan = clock v (samples v) - 10 * Minute\<rparr>)
                       (emit (TimeNow (clock v (samples v)))
                          (v\<lparr>samples := Suc (samples v)\<rparr>)))\<lparr>db := d\<rparr>)"
    by (simp add: cleanup_fn_unfold Let_def)
  from a b c d show ?thesis by blast
qed

text \<open>
  A store that fails and a lock that is out of reach from the second tick on: the loop
  goes on to the cancellation all the same and returns its error; without a cancellation
  it has not returned. Both failures are in the trace as lines of the logger.
\<close>

theorem Run_returns_only_on_cancellation_witness:
  "fst (Run (ProvideService (protection True) (LockAndExecute_spec first_only))
          [Tick, Tick, Done (errorString ''context canceled''), Tick]
          (world_at 1000000000000 [] (Some (errorString ''database is locked''))))
     = Some (Some (errorString ''context canceled''))
   \<and> fst (Run (ProvideService (protection True) (LockAndExecute_spec first_only))
          [Tick, Tick, Tick]
          (world_at 1000000000000 [] (Some (errorString ''database is locked''))))
     = None
   \<and> trace (snd (Run (ProvideService (protection True) (LockAndExecute_spec first_only))
          [Tick, Tick, Done (errorString ''context canceled''), Tick]
          (world_at 1000000000000 [] (Some (errorString ''database is locked'')))))
     = [NewTicker 600000000000,
        LockAndExecuteCall ''delete old login attempts'' 600000000000,
        TimeNow 1000000000000,
        DeleteOldLoginAttemptsCall \<lparr>OlderThan = 400000000000\<rparr>,
        LogError ''Problem deleting expired login attempts''
          [(''error'', LString ''database is locked'')],
        LockAndExecuteCall ''delete old login attempts'' 600000000000,
        LogError ''failed to lock and execute cleanup of old login attempts''
          [(''error'', LError (errorString ''server lock unavailable''))]]"
proof -
  let ?s = "ProvideService (protection True) (LockAndExecute_spec first_only)"
  let ?w = "world_at 1000000000000 [] (Some (errorString ''database is locked''))"
  have on: "\<not> DisableBruteForceLoginProtection (cfg ?s)"
    by (simp add: protection_def)
  have l: "lock ?s = LockAndExecute_spec first_only"
    by simp
  note r1 = Run_returns_only_on_cancellation
    [OF on, of "[Tick, Tick, Done (errorString ''context canceled''), Tick]" ?w]
  note r2 = Run_returns_only_on_cancellation [OF on, of "[Tick, Tick, Tick]" ?w]
  have a: "fst (Run ?s [Tick, Tick, Done (errorString ''context canceled''), Tick] ?w)
             = Some (Some (errorString ''context canceled''))"
    using r1 by simp
  have b: "fst (Run ?s [Tick, Tick, Tick] ?w) = None"
    using r2 by simp
  have "snd (Run ?s [Tick, Tick, Done (errorString ''context canceled''), Tick] ?w)
          = cleanup ?s (cleanup ?s (emit (NewTicker (10 * Minute)) ?w))"
    using r1 by (simp add: numeral_2_eq_2)
  then have c: "trace (snd (Run ?s [Tick, Tick, Done (errorString ''context canceled''), Tick] ?w))
     = [NewTicker 600000000000,
        LockAndExecuteCall ''delete old login attempts'' 600000000000,
        TimeNow 1000000000000,
        DeleteOldLoginAttemptsCall \<lparr>OlderThan = 400000000000\<rparr>,
        LogError ''Problem deleting expired login attempts''
          [(''error'', LString ''database is locked'')],
        LockAndExecuteCall ''delete old login attempts'' 600000000000,
        LogError ''failed to lock and execute cleanup of old login attempts''
          [(''error'', LError (errorString ''server lock unavailable''))]]"
    by (simp add: cleanup_spec_lock [OF l] cleanup_fn_unfold Let_def first_only_def
        world_at_def DeleteOlderThan_def Minute_ns)
  from a b c show ?thesis by blast
qed

text \<open>
  C5. With protection disabled, \<^verbatim>\<open>Run\<close> returns nil at once and leaves the world as it
  was: no ticker, no cleanup, whatever signals would have come. The flag is read at the
  entry only: the loop is the same function of the signals and the world for every value
  of the configuration.
\<close>

theorem Run_disabled_returns_at_once:
  assumes "DisableBruteForceLoginProtection (cfg s)"
  shows "Run s sigs w = (Some None, w)
       \<and> (\<forall>c v. Run_loop (s\<lparr>cfg := c\<rparr>) sigs v = Run_loop s sigs v)"
  using assms by (simp add: Run_def Run_loop_cfg)

theorem Run_disabled_returns_at_once_witness:
  "Run (ProvideService (protection False) (LockAndExecute_spec first_only))
     [Tick, Tick, Done (errorString ''context canceled'')]
     (world_at 1000000000000 (attempts ''alice'' [1, 2]) None)
   = (Some None, world_at 1000000000000 (attempts ''alice'' [1, 2]) None)"
proof -
  have off: "DisableBruteForceLoginProtection
               (cfg (ProvideService (protection False) (LockAndExecute_spec first_only)))"
    by (simp add: protection_def)
  show ?thesis
    using Run_disabled_returns_at_once [OF off] by blast
qed

text \<open>
  C6. A call of \<^verbatim>\<open>Validate\<close> with protection enabled reads the clock exactly once, and the
  \<^verbatim>\<open>Since\<close> of the one query it sends to the store is that reading minus five minutes. The
  function that \<^verbatim>\<open>cleanup\<close> hands to the lock reads the clock exactly once, and the
  \<^verbatim>\<open>OlderThan\<close> of its delete command is that reading minus ten minutes.
\<close>

theorem window_from_one_clock_reading:
  assumes "\<not> DisableBruteForceLoginProtection (cfg s)"
  shows "trace (snd (Validate s u w)) =
           trace w @ [TimeNow (clock w (samples w)),
             GetUserLoginAttemptCountCall
               \<lparr>GetUserLoginAttemptCountQuery.Username = u,
                Since = clock w (samples w) - 5 * Minute\<rparr>]
       \<and> samples (snd (Validate s u w)) = Suc (samples w)
       \<and> (\<exists>ev. trace (cleanup_fn s v) =
             trace v @ [TimeNow (clock v (samples v)),
               DeleteOldLoginAttemptsCall \<lparr>OlderThan = clock v (samples v) - 10 * Minute\<rparr>,
               ev])
       \<and> samples (cleanup_fn s v) = Suc (samples v)"
  using assms cleanup_fn_trace [of s v]
  by (simp add: Validate_enabled Let_def cleanup_fn_samples)

text \<open>
  Two calls one after the other: the second window starts at the second reading of the
  clock, a nanosecond after the first.
\<close>

theorem window_from_one_clock_reading_witness:
  "trace (snd (Validate (ProvideService (protection True) (LockAndExecute_spec first_only))
                 ''alice''
                 (snd (Validate (ProvideService (protection True) (LockAndExecute_spec first_only))
                         ''alice'' (world_at 1000000000000 [] None)))))
     = [TimeNow 1000000000000,
        GetUserLoginAttemptCountCall
          \<lparr>GetUserLoginAttemptCountQuery.Username = ''alice'', Since = 700000000000\<rparr>,
        TimeNow 1000000000001,
        GetUserLoginAttemptCountCall
          \<lparr>GetUserLoginAttemptCountQuery.Username = ''alice'', Since = 700000000001\<rparr>]"
proof -
  let ?s = "ProvideService (protection True) (LockAndExecute_spec first_only)"
  let ?w = "world_at 1000000000000 [] None"
  let ?w1 = "snd (Validate ?s ''alice'' ?w)"
  have on: "\<not> DisableBruteForceLoginProtection (cfg ?s)"
    by (simp add: protection_def)
  note first = window_from_one_clock_reading [OF on, of "''alice''" ?w ?w]
  note second = window_from_one_clock_reading [OF on, of "''alice''" ?w1 ?w]
  have s1: "samples ?w1 = 1" and t1: "trace ?w1 =
      [TimeNow 1000000000000,
       GetUserLoginAttemptCountCall
         \<lparr>GetUserLoginAttemptCountQuery.Username = ''alice'', Since = 700000000000\<rparr>]"
    using first by (simp_all add: world_at_def Minute_ns)
  have c1: "clock ?w1 = (\<lambda>n. 1000000000000 + int n)"
    using on by (simp add: Validate_enabled Let_def world_at_def)
  show ?thesis
    using second by (simp add: s1 t1 c1 Minute_ns)
qed



subsection \<open>The frame of Validate and the boundary of its window\<close>

text \<open>
  C8. \<^verbatim>\<open>Validate\<close> calls no method of the store but the count query: once with protection
  enabled, never with protection disabled. The state behind the store after the call is
  the state the count query itself leaves. On the modelled store, whose count is a read,
  the stored attempt records after the call are the records before it.
\<close>

theorem Validate_only_counts:
  "filter is_store_call (trace (snd (Validate s u w))) =
     filter is_store_call (trace w) @
       (if DisableBruteForceLoginProtection (cfg s) then []
        else [GetUserLoginAttemptCountCall
                \<lparr>GetUserLoginAttemptCountQuery.Username = u,
                 Since = clock w (samples w) - 5 * Minute\<rparr>])
   \<and> db (snd (Validate s u w)) =
       (if DisableBruteForceLoginProtection (cfg s) then db w
        else snd (GetUserLoginAttemptCount (store s)
               \<lparr>GetUserLoginAttemptCountQuery.Username = u,
                Since = clock w (samples w) - 5 * Minute\<rparr> (db w)))
   \<and> records (db (snd (Validate (ProvideService c l) u x))) = records (db x)"
proof -
  have a: "records (db (snd (Validate (ProvideService c l) u x))) = records (db x)"
  proof (cases "DisableBruteForceLoginProtection c")
    case True
    then show ?thesis by (simp add: Validate_def)
  next
    case False
    then show ?thesis by (simp add: Validate_enabled Let_def CountSince_reads)
  qed
  have b: "filter is_store_call (trace (snd (Validate s u w))) =
     filter is_store_call (trace w) @
       (if DisableBruteForceLoginProtection (cfg s) then []
        else [GetUserLoginAttemptCountCall
                \<lparr>GetUserLoginAttemptCountQuery.Username = u,
                 Since = clock w (samples w) - 5 * Minute\<rparr>])
   \<and> db (snd (Validate s u w)) =
       (if DisableBruteForceLoginProtection (cfg s) then db w
        else snd (GetUserLoginAttemptCount (store s)
               \<lparr>GetUserLoginAttemptCountQuery.Username = u,
                Since = clock w (samples w) - 5 * Minute\<rparr> (db w)))"
  proof (cases "DisableBruteForceLoginProtection (cfg s)")
    case True
    then show ?thesis by (simp add: Validate_def)
  next
    case False
    then show ?thesis by (simp add: Validate_enabled Let_def)
  qed
  from a b show ?thesis by blast
qed

theorem Validate_only_counts_witness:
  "filter is_store_call
     (trace (snd (Validate (ProvideService (protection True) (LockAndExecute_spec first_only))
                    ''alice''
                    (world_at 1000000000000 (attempts ''alice'' [1, 900000000000]) None))))
     = [GetUserLoginAttemptCountCall
          \<lparr>GetUserLoginAttemptCountQuery.Username = ''alice'', Since = 700000000000\<rparr>]
   \<and> db (snd (Validate (ProvideService (protection True) (LockAndExecute_spec first_only))
                 ''alice''
                 (world_at 1000000000000 (attempts ''alice'' [1, 900000000000]) None)))
     = \<lparr>records = attempts ''alice'' [1, 900000000000], store_now = 1000000000000,
        failing = None\<rparr>"
  using Validate_only_counts
    [of "ProvideService (protection True) (LockAndExecute_spec first_only)" "''alice''"
        "world_at 1000000000000 (attempts ''alice'' [1, 900000000000]) None"]
  by (simp add: protection_def world_at_def CountSince_reads Minute_ns)

text \<open>
  C9. On the modelled store, an attempt recorded five minutes or more before the reading of
  the clock that \<^verbatim>\<open>Validate\<close> takes, the attempt at exactly now minus five minutes
  included, has no part in the result: the call returns what it returns without that
  record.
\<close>

theorem old_attempts_are_not_counted:
  assumes "records (db w) = xs @ r # ys"
    and "occurredAt r \<le> clock w (samples w) - 5 * Minute"
  shows "fst (Validate (ProvideService c l) u w) =
         fst (Validate (ProvideService c l) u (w\<lparr>db := (db w)\<lparr>records := xs @ ys\<rparr>\<rparr>))"
proof (cases "DisableBruteForceLoginProtection c")
  case True
  then show ?thesis by (simp add: Validate_def)
next
  case False
  have "\<not> within_window u (clock w (samples w) - 5 * Minute) r"
    using assms(2) by (simp add: within_window_def)
  then show ?thesis
    using False assms(1)
    by (simp add: Validate_enabled Let_def CountSince_def split: option.splits)
qed

text \<open>
  Now is 1000 s. Four attempts at 900 s and one at exactly 700 s: allowed, as with the four
  alone. The same with the fifth attempt a nanosecond later: not allowed.
\<close>

theorem old_attempts_are_not_counted_witness:
  "fst (Validate (ProvideService (protection True) (LockAndExecute_spec first_only)) ''alice''
          (world_at 1000000000000
             (attempts ''alice''
                [700000000000, 900000000000, 900000000001, 900000000002, 900000000003])
             None))
     = (True, None)
   \<and> fst (Validate (ProvideService (protection True) (LockAndExecute_spec first_only)) ''alice''
          (world_at 1000000000000
             (attempts ''alice''
                [700000000001, 900000000000, 900000000001, 900000000002, 900000000003])
             None))
     = (False, None)"
proof -
  let ?s = "ProvideService (protection True) (LockAndExecute_spec first_only)"
  let ?r = "\<lparr>username = ''alice'', sourceAddress = ''10.0.0.1'', occurredAt = 700000000000\<rparr>"
  let ?four = "attempts ''alice'' [900000000000, 900000000001, 900000000002, 900000000003]"
  let ?w = "world_at 1000000000000
              (attempts ''alice''
                 [700000000000, 900000000000, 900000000001, 900000000002, 900000000003])
              None"
  have on: "\<not> DisableBruteForceLoginProtection (cfg ?s)"
    by (simp add: protection_def)
  have recs: "records (db ?w) = [] @ ?r # ?four"
    by (simp add: world_at_def attempts_def)
  have old: "occurredAt ?r \<le> clock ?w (samples ?w) - 5 * Minute"
    by (simp add: world_at_def Minute_ns)
  have without: "?w\<lparr>db := (db ?w)\<lparr>records := [] @ ?four\<rparr>\<rparr> = world_at 1000000000000 ?four None"
    by (simp add: world_at_def)
  have four: "fst (Validate ?s ''alice'' (world_at 1000000000000 ?four None)) = (True, None)"
    using on
    by (simp add: Validate_enabled Let_def world_at_def attempts_def CountSince_def
        within_window_def Minute_ns)
  have a: "fst (Validate ?s ''alice'' ?w) = (True, None)"
    using old_attempts_are_not_counted [OF recs old, of "protection True"
        "LockAndExecute_spec first_only" "''alice''"] without four
    by simp
  have b: "fst (Validate ?s ''alice''
             (world_at 1000000000000
                (attempts ''alice''
                   [700000000001, 900000000000, 900000000001, 900000000002, 900000000003])
                None)) = (False, None)"
    using on
    by (simp add: Validate_enabled Let_def world_at_def attempts_def CountSince_def
        within_window_def Minute_ns)
  from a b show ?thesis by blast
qed

subsection \<open>DimensionKeysHandler\<close>

text \<open>
  The handler, one return at a time, with the variable \<^verbatim>\<open>newListMetricsService\<close> at its
  initial value: each failure on its path is handed to \<^verbatim>\<open>NewHttpError\<close> with
  its status and returned with a nil body, and only when nothing fails is the result of
  \<^verbatim>\<open>json.Marshal\<close> returned with a nil error.
\<close>

lemma handler_parse_fails:
  assumes "GetDimensionKeysRequest im parameters = (req, Some e)"
  shows "DimensionKeysHandler im (newListMetricsService im) pluginCtx reqCtxFactory parameters =
           Returns (None, NewHttpError im ''error in DimensionKeyHandler'' 400 e)"
  using assms by (simp add: DimensionKeysHandler_def StatusBadRequest_def)

lemma handler_service_fails:
  assumes "GetDimensionKeysRequest im parameters = (req, None)"
    and "newListMetricsService im pluginCtx reqCtxFactory (Region im req) = (service, Some e)"
  shows "DimensionKeysHandler im (newListMetricsService im) pluginCtx reqCtxFactory parameters =
           Returns (None, NewHttpError im ''error in DimensionKeyHandler'' 500 e)"
  using assms by (simp add: DimensionKeysHandler_def StatusInternalServerError_def)

lemma handler_lookup_fails:
  assumes "GetDimensionKeysRequest im parameters = (req, None)"
    and "newListMetricsService im pluginCtx reqCtxFactory (Region im req) = (Some svc, None)"
    and "(if Type im req = FilterDimensionKeysRequest im
          then GetDimensionKeysByDimensionFilter im svc req
          else GetHardCodedDimensionKeysByNamespace im (Namespace im req)) = (resp, Some e)"
  shows "DimensionKeysHandler im (newListMetricsService im) pluginCtx reqCtxFactory parameters =
           Returns (None, NewHttpError im ''error in DimensionKeyHandler'' 500 e)"
  using assms
  by (simp add: DimensionKeysHandler_def StatusInternalServerError_def split: if_splits)

lemma handler_marshal_fails:
  assumes "GetDimensionKeysRequest im parameters = (req, None)"
    and "newListMetricsService im pluginCtx reqCtxFactory (Region im req) = (Some svc, None)"
    and "(if Type im req = FilterDimensionKeysRequest im
          then GetDimensionKeysByDimensionFilter im svc req
          else GetHardCodedDimensionKeysByNamespace im (Namespace im req)) = (resp, None)"
    and "json_Marshal im resp = (b, Some e)"
  shows "DimensionKeysHandler im (newListMetricsService im) pluginCtx reqCtxFactory parameters =
           Returns (None, NewHttpError im ''error in DimensionKeyHandler'' 500 e)"
  using assms
  by (simp add: DimensionKeysHandler_def StatusInternalServerError_def split: if_splits)

lemma handler_succeeds:
  assumes "GetDimensionKeysRequest im parameters = (req, None)"
    and "newListMetricsService im pluginCtx reqCtxFactory (Region im req) = (Some svc, None)"
    and "(if Type im req = FilterDimensionKeysRequest im
          then GetDimensionKeysByDimensionFilter im svc req
          else GetHardCodedDimensionKeysByNamespace im (Namespace im req)) = (resp, None)"
    and "json_Marshal im resp = (b, None)"
  shows "DimensionKeysHandler im (newListMetricsService im) pluginCtx reqCtxFactory parameters = Returns (b, None)"
  using assms
  by (simp add: DimensionKeysHandler_def split: if_splits)

text \<open>
  Exactly one of the two results is non-nil, and a returned error has status 400 exactly
  when parsing failed.
\<close>

lemma handler_exactly_one:
  assumes marshal: "\<forall>v b. json_Marshal im v = (b, None) \<longrightarrow> b \<noteq> None"
    and newerr: "\<forall>m c e. \<exists>h. NewHttpError im m c e = Some h \<and> StatusCode h = c"
    and newsvc: "\<forall>m. NewListMetricsService im m \<noteq> None"
  shows "\<exists>body herr.
           DimensionKeysHandler im (newListMetricsService im) pluginCtx reqCtxFactory parameters
             = Returns (body, herr)
         \<and> (body = None) \<noteq> (herr = None)
         \<and> (\<forall>h. herr = Some h \<longrightarrow>
               (StatusCode h = 400 \<longleftrightarrow> snd (GetDimensionKeysRequest im parameters) \<noteq> None)
             \<and> (StatusCode h = 500 \<longleftrightarrow> snd (GetDimensionKeysRequest im parameters) = None))"
proof -
  let ?H = "DimensionKeysHandler im (newListMetricsService im) pluginCtx reqCtxFactory parameters"
  obtain req perr where p: "GetDimensionKeysRequest im parameters = (req, perr)"
    by (cases "GetDimensionKeysRequest im parameters")
  have bad: "\<exists>h. NewHttpError im ''error in DimensionKeyHandler'' 400 e = Some h
                 \<and> StatusCode h = 400" for e
    using newerr by blast
  have internal: "\<exists>h. NewHttpError im ''error in DimensionKeyHandler'' 500 e = Some h
                      \<and> StatusCode h = 500" for e
    using newerr by blast
  show ?thesis
  proof (cases perr)
    case (Some e)
    then have "?H = Returns (None, NewHttpError im ''error in DimensionKeyHandler'' 400 e)"
      using p by (simp add: handler_parse_fails)
    then show ?thesis
      using bad [of e] p Some by auto
  next
    case None
    note parsed = p [unfolded None]
    obtain rc ferr where f: "reqCtxFactory pluginCtx (Region im req) = (rc, ferr)"
      by (cases "reqCtxFactory pluginCtx (Region im req)")
    show ?thesis
    proof (cases ferr)
      case (Some e)
      have "newListMetricsService im pluginCtx reqCtxFactory (Region im req) = (None, Some e)"
        using f Some by (simp add: newListMetricsService_def)
      then have "?H = Returns (None, NewHttpError im ''error in DimensionKeyHandler'' 500 e)"
        by (rule handler_service_fails [OF parsed])
      then show ?thesis
        using internal [of e] parsed by auto
    next
      case None
      obtain svc where svc: "NewListMetricsService im (MetricsClientProvider rc) = Some svc"
        using newsvc by blast
      have built: "newListMetricsService im pluginCtx reqCtxFactory (Region im req)
                     = (Some svc, None)"
        using f None svc by (simp add: newListMetricsService_def)
      obtain resp lerr where lk:
        "(if Type im req = FilterDimensionKeysRequest im
          then GetDimensionKeysByDimensionFilter im svc req
          else GetHardCodedDimensionKeysByNamespace im (Namespace im req)) = (resp, lerr)"
        by (cases "if Type im req = FilterDimensionKeysRequest im
                   then GetDimensionKeysByDimensionFilter im svc req
                   else GetHardCodedDimensionKeysByNamespace im (Namespace im req)")
      show ?thesis
      proof (cases lerr)
        case (Some e)
        have "?H = Returns (None, NewHttpError im ''error in DimensionKeyHandler'' 500 e)"
          using lk Some by (simp add: handler_lookup_fails [OF parsed built])
        then show ?thesis
          using internal [of e] parsed by auto
      next
        case None
        note found = lk [unfolded None]
        obtain b merr where m: "json_Marshal im resp = (b, merr)"
          by (cases "json_Marshal im resp")
        show ?thesis
        proof (cases merr)
          case (Some e)
          have "?H = Returns (None, NewHttpError im ''error in DimensionKeyHandler'' 500 e)"
            using m Some by (simp add: handler_marshal_fails [OF parsed built found])
          then show ?thesis
            using internal [of e] parsed by auto
        next
          case None
          have "?H = Returns (b, None)"
            using m None by (simp add: handler_succeeds [OF parsed built found])
          moreover have "b \<noteq> None"
            using marshal m None by blast
          ultimately show ?thesis
            by auto
        qed
      qed
    qed
  qed
qed

text \<open>
  C10. Provided that \<^verbatim>\<open>json.Marshal\<close> returns a non-nil slice whenever it returns no error,
  that \<^verbatim>\<open>NewHttpError\<close> returns a non-nil error carrying the status it is given, and that
  \<^verbatim>\<open>NewListMetricsService\<close> returns a non-nil service, the handler returns, for every plugin
  context, request context factory and parameters, either a non-nil body and a nil error or
  a nil body and a non-nil error, never both and never neither. Every failure is returned
  as an error: a failure to parse the parameters as a non-nil error with status 400 and a
  nil body; a failure of the request context factory (so that no service is built), of the
  key lookup or of the encoding as a non-nil error with status 500 and a nil body, each
  made by \<^verbatim>\<open>NewHttpError\<close> from the error that occurred. When nothing fails, the body is
  what \<^verbatim>\<open>json.Marshal\<close> returned for the keys found, non-nil, and the error is nil. So an
  error carries status 400 exactly when parsing failed and status 500 otherwise.
\<close>

theorem DimensionKeysHandler_body_or_error:
  assumes marshal: "\<forall>v b. json_Marshal im v = (b, None) \<longrightarrow> b \<noteq> None"
    and newerr: "\<forall>m c e. \<exists>h. NewHttpError im m c e = Some h \<and> StatusCode h = c"
    and newsvc: "\<forall>m. NewListMetricsService im m \<noteq> None"
  shows "(\<exists>body herr.
           DimensionKeysHandler im (newListMetricsService im) pluginCtx reqCtxFactory parameters
             = Returns (body, herr)
         \<and> (body = None) \<noteq> (herr = None)
         \<and> (\<forall>h. herr = Some h \<longrightarrow>
               (StatusCode h = 400 \<longleftrightarrow> snd (GetDimensionKeysRequest im parameters) \<noteq> None)
             \<and> (StatusCode h = 500 \<longleftrightarrow> snd (GetDimensionKeysRequest im parameters) = None)))
       \<and> (\<forall>req e. GetDimensionKeysRequest im parameters = (req, Some e) \<longrightarrow>
             (\<exists>h. DimensionKeysHandler im (newListMetricsService im) pluginCtx reqCtxFactory
                     parameters = Returns (None, Some h)
                 \<and> NewHttpError im ''error in DimensionKeyHandler'' 400 e = Some h
                 \<and> StatusCode h = 400))
       \<and> (\<forall>req rc e. GetDimensionKeysRequest im parameters = (req, None)
             \<and> reqCtxFactory pluginCtx (Region im req) = (rc, Some e) \<longrightarrow>
             (\<exists>h. DimensionKeysHandler im (newListMetricsService im) pluginCtx reqCtxFactory
                     parameters = Returns (None, Some h)
                 \<and> NewHttpError im ''error in DimensionKeyHandler'' 500 e = Some h
                 \<and> StatusCode h = 500))
       \<and> (\<forall>req rc svc resp e. GetDimensionKeysRequest im parameters = (req, None)
             \<and> reqCtxFactory pluginCtx (Region im req) = (rc, None)
             \<and> NewListMetricsService im (MetricsClientProvider rc) = Some svc
             \<and> (if Type im req = FilterDimensionKeysRequest im
                  then GetDimensionKeysByDimensionFilter im svc req
                  else GetHardCodedDimensionKeysByNamespace im (Namespace im req))
                 = (resp, Some e) \<longrightarrow>
             (\<exists>h. DimensionKeysHandler im (newListMetricsService im) pluginCtx reqCtxFactory
                     parameters = Returns (None, Some h)
                 \<and> NewHttpError im ''error in DimensionKeyHandler'' 500 e = Some h
                 \<and> StatusCode h = 500))
       \<and> (\<forall>req rc svc resp b e. GetDimensionKeysRequest im parameters = (req, None)
             \<and> reqCtxFactory pluginCtx (Region im req) = (rc, None)
             \<and> NewListMetricsService im (MetricsClientProvider rc) = Some svc
             \<and> (if Type im req = FilterDimensionKeysRequest im
                  then GetDimensionKeysByDimensionFilter im svc req
                  else GetHardCodedDimensionKeysByNamespace im (Namespace im req))
                 = (resp, None)
             \<and> json_Marshal im resp = (b, Some e) \<longrightarrow>
             (\<exists>h. DimensionKeysHandler im (newListMetricsService im) pluginCtx reqCtxFactory
                     parameters = Returns (None, Some h)
                 \<and> NewHttpError im ''error in DimensionKeyHandler'' 500 e = Some h
                 \<and> StatusCode h = 500))
       \<and> (\<forall>req rc svc resp b. GetDimensionKeysRequest im parameters = (req, None)
             \<and> reqCtxFactory pluginCtx (Region im req) = (rc, None)
             \<and> NewListMetricsService im (MetricsClientProvider rc) = Some svc
             \<and> (if Type im req = FilterDimensionKeysRequest im
                  then GetDimensionKeysByDimensionFilter im svc req
                  else GetHardCodedDimensionKeysByNamespace im (Namespace im req))
                 = (resp, None)
             \<and> json_Marshal im resp = (b, None) \<longrightarrow>
             DimensionKeysHandler im (newListMetricsService im) pluginCtx reqCtxFactory
               parameters = Returns (b, None)
             \<and> b \<noteq> None)"
proof -
  let ?H = "DimensionKeysHandler im (newListMetricsService im) pluginCtx reqCtxFactory parameters"
  have made: "\<exists>h. NewHttpError im ''error in DimensionKeyHandler'' c e = Some h
                  \<and> StatusCode h = c" for c e
    using newerr by blast
  have one: "\<exists>body herr. ?H = Returns (body, herr)
         \<and> (body = None) \<noteq> (herr = None)
         \<and> (\<forall>h. herr = Some h \<longrightarrow>
               (StatusCode h = 400 \<longleftrightarrow> snd (GetDimensionKeysRequest im parameters) \<noteq> None)
             \<and> (StatusCode h = 500 \<longleftrightarrow> snd (GetDimensionKeysRequest im parameters) = None))"
    by (rule handler_exactly_one [OF marshal newerr newsvc])
  have parse: "\<exists>h. ?H = Returns (None, Some h)
                 \<and> NewHttpError im ''error in DimensionKeyHandler'' 400 e = Some h
                 \<and> StatusCode h = 400"
    if "GetDimensionKeysRequest im parameters = (req, Some e)" for req e
    using made [of 400 e] handler_parse_fails [OF that] by auto
  have service: "\<exists>h. ?H = Returns (None, Some h)
                 \<and> NewHttpError im ''error in DimensionKeyHandler'' 500 e = Some h
                 \<and> StatusCode h = 500"
    if "GetDimensionKeysRequest im parameters = (req, None)"
      and "reqCtxFactory pluginCtx (Region im req) = (rc, Some e)" for req rc e
  proof -
    have "newListMetricsService im pluginCtx reqCtxFactory (Region im req) = (None, Some e)"
      using that(2) by (simp add: newListMetricsService_def)
    then have "?H = Returns (None, NewHttpError im ''error in DimensionKeyHandler'' 500 e)"
      by (rule handler_service_fails [OF that(1)])
    then show ?thesis
      using made [of 500 e] by auto
  qed
  have lookup: "\<exists>h. ?H = Returns (None, Some h)
                 \<and> NewHttpError im ''error in DimensionKeyHandler'' 500 e = Some h
                 \<and> StatusCode h = 500"
    if "GetDimensionKeysRequest im parameters = (req, None)"
      and "reqCtxFactory pluginCtx (Region im req) = (rc, None)"
      and "NewListMetricsService im (MetricsClientProvider rc) = Some svc"
      and "(if Type im req = FilterDimensionKeysRequest im
            then GetDimensionKeysByDimensionFilter im svc req
            else GetHardCodedDimensionKeysByNamespace im (Namespace im req)) = (resp, Some e)"
    for req rc svc resp e
  proof -
    have built: "newListMetricsService im pluginCtx reqCtxFactory (Region im req)
                   = (Some svc, None)"
      using that(2,3) by (simp add: newListMetricsService_def)
    show ?thesis
      using made [of 500 e] handler_lookup_fails [OF that(1) built that(4)] by auto
  qed
  have encode: "\<exists>h. ?H = Returns (None, Some h)
                 \<and> NewHttpError im ''error in DimensionKeyHandler'' 500 e = Some h
                 \<and> StatusCode h = 500"
    if "GetDimensionKeysRequest im parameters = (req, None)"
      and "reqCtxFactory pluginCtx (Region im req) = (rc, None)"
      and "NewListMetricsService im (MetricsClientProvider rc) = Some svc"
      and "(if Type im req = FilterDimensionKeysRequest im
            then GetDimensionKeysByDimensionFilter im svc req
            else GetHardCodedDimensionKeysByNamespace im (Namespace im req)) = (resp, None)"
      and "json_Marshal im resp = (b, Some e)"
    for req rc svc resp b e
  proof -
    have built: "newListMetricsService im pluginCtx reqCtxFactory (Region im req)
                   = (Some svc, None)"
      using that(2,3) by (simp add: newListMetricsService_def)
    show ?thesis
      using made [of 500 e] handler_marshal_fails [OF that(1) built that(4) that(5)] by auto
  qed
  have success: "?H = Returns (b, None) \<and> b \<noteq> None"
    if "GetDimensionKeysRequest im parameters = (req, None)"
      and "reqCtxFactory pluginCtx (Region im req) = (rc, None)"
      and "NewListMetricsService im (MetricsClientProvider rc) = Some svc"
      and "(if Type im req = FilterDimensionKeysRequest im
            then GetDimensionKeysByDimensionFilter im svc req
            else GetHardCodedDimensionKeysByNamespace im (Namespace im req)) = (resp, None)"
      and "json_Marshal im resp = (b, None)"
    for req rc svc resp b
  proof -
    have built: "newListMetricsService im pluginCtx reqCtxFactory (Region im req)
                   = (Some svc, None)"
      using that(2,3) by (simp add: newListMetricsService_def)
    show ?thesis
      using handler_succeeds [OF that(1) built that(4) that(5)] marshal that(5) by blast
  qed
  have c1: "\<forall>req e. GetDimensionKeysRequest im parameters = (req, Some e) \<longrightarrow>
             (\<exists>h. DimensionKeysHandler im (newListMetricsService im) pluginCtx reqCtxFactory
                     parameters = Returns (None, Some h)
                 \<and> NewHttpError im ''error in DimensionKeyHandler'' 400 e = Some h
                 \<and> StatusCode h = 400)"
    using parse by blast
  have c2: "\<forall>req rc e. GetDimensionKeysRequest im parameters = (req, None)
             \<and> reqCtxFactory pluginCtx (Region im req) = (rc, Some e) \<longrightarrow>
             (\<exists>h. DimensionKeysHandler im (newListMetricsService im) pluginCtx reqCtxFactory
                     parameters = Returns (None, Some h)
                 \<and> NewHttpError im ''error in DimensionKeyHandler'' 500 e = Some h
                 \<and> StatusCode h = 500)"
    using service by blast
  have c3: "\<forall>req rc svc resp e. GetDimensionKeysRequest im parameters = (req, None)
             \<and> reqCtxFactory pluginCtx (Region im req) = (rc, None)
             \<and> NewListMetricsService im (MetricsClientProvider rc) = Some svc
             \<and> (if Type im req = FilterDimensionKeysRequest im
                  then GetDimensionKeysByDimensionFilter im svc req
                  else GetHardCodedDimensionKeysByNamespace im (Namespace im req))
                 = (resp, Some e) \<longrightarrow>
             (\<exists>h. DimensionKeysHandler im (newListMetricsService im) pluginCtx reqCtxFactory
                     parameters = Returns (None, Some h)
                 \<and> NewHttpError im ''error in DimensionKeyHandler'' 500 e = Some h
                 \<and> StatusCode h = 500)"
    using lookup by blast
  have c4: "\<forall>req rc svc resp b e. GetDimensionKeysRequest im parameters = (req, None)
             \<and> reqCtxFactory pluginCtx (Region im req) = (rc, None)
             \<and> NewListMetricsService im (MetricsClientProvider rc) = Some svc
             \<and> (if Type im req = FilterDimensionKeysRequest im
                  then GetDimensionKeysByDimensionFilter im svc req
                  else GetHardCodedDimensionKeysByNamespace im (Namespace im req))
                 = (resp, None)
             \<and> json_Marshal im resp = (b, Some e) \<longrightarrow>
             (\<exists>h. DimensionKeysHandler im (newListMetricsService im) pluginCtx reqCtxFactory
                     parameters = Returns (None, Some h)
                 \<and> NewHttpError im ''error in DimensionKeyHandler'' 500 e = Some h
                 \<and> StatusCode h = 500)"
    using encode by blast
  have c5: "\<forall>req rc svc resp b. GetDimensionKeysRequest im parameters = (req, None)
             \<and> reqCtxFactory pluginCtx (Region im req) = (rc, None)
             \<and> NewListMetricsService im (MetricsClientProvider rc) = Some svc
             \<and> (if Type im req = FilterDimensionKeysRequest im
                  then GetDimensionKeysByDimensionFilter im svc req
                  else GetHardCodedDimensionKeysByNamespace im (Namespace im req))
                 = (resp, None)
             \<and> json_Marshal im resp = (b, None) \<longrightarrow>
             DimensionKeysHandler im (newListMetricsService im) pluginCtx reqCtxFactory
               parameters = Returns (b, None)
             \<and> b \<noteq> None"
    using success by blast
  show ?thesis
    by (rule conjI [OF one conjI [OF c1 conjI [OF c2 conjI [OF c3 conjI [OF c4 c5]]]]])
qed

text \<open>
  No region: status 400. A region without a client, or a namespace without hard-coded
  keys: status 500. A region and a known namespace: the encoded keys and no error. The
  same request with the encoder that fails: status 500.
\<close>

theorem DimensionKeysHandler_body_or_error_witness:
  "DimensionKeysHandler plain_deps (newListMetricsService plain_deps) () plain_factory
     [(''namespace'', [''AWS/EC2''])]
     = Returns (None,
         Some \<lparr>Message = ''error in DimensionKeyHandler'', Error = ''region is required'',
               StatusCode = 400\<rparr>)
   \<and> DimensionKeysHandler plain_deps (newListMetricsService plain_deps) () plain_factory
     [(''region'', [''eu-west-1'']), (''namespace'', [''AWS/EC2''])]
     = Returns (None,
         Some \<lparr>Message = ''error in DimensionKeyHandler'', Error = ''no client for region'',
               StatusCode = 500\<rparr>)
   \<and> DimensionKeysHandler plain_deps (newListMetricsService plain_deps) () plain_factory
     [(''region'', [''us-east-1'']), (''namespace'', [''AWS/S3''])]
     = Returns (None,
         Some \<lparr>Message = ''error in DimensionKeyHandler'',
               Error = ''unable to find dimensions for namespace'', StatusCode = 500\<rparr>)
   \<and> DimensionKeysHandler plain_deps (newListMetricsService plain_deps) () plain_factory
     [(''region'', [''us-east-1'']), (''namespace'', [''AWS/EC2''])]
     = Returns (Some (''['' @ join_quoted [''AutoScalingGroupName'', ''InstanceId''] @ '']''),
         None)
   \<and> DimensionKeysHandler unencodable_deps (newListMetricsService unencodable_deps) ()
       plain_factory [(''region'', [''us-east-1'']), (''namespace'', [''AWS/EC2''])]
     = Returns (None,
         Some \<lparr>Message = ''error in DimensionKeyHandler'',
               Error = ''json: unsupported value'', StatusCode = 500\<rparr>)"
proof -
  have marshal: "\<forall>v b. json_Marshal plain_deps v = (b, None) \<longrightarrow> b \<noteq> None"
    by (auto simp: plain_deps_def marshal_plain_def split: option.splits)
  have newerr: "\<forall>m c e. \<exists>h. NewHttpError plain_deps m c e = Some h \<and> StatusCode h = c"
    by (simp add: plain_deps_def)
  have newsvc: "\<forall>m. NewListMetricsService plain_deps m \<noteq> None"
    by (simp add: plain_deps_def)
  have marshal': "\<forall>v b. json_Marshal unencodable_deps v = (b, None) \<longrightarrow> b \<noteq> None"
    by (simp add: unencodable_deps_def)
  have newerr': "\<forall>m c e. \<exists>h. NewHttpError unencodable_deps m c e = Some h
                    \<and> StatusCode h = c"
    by (simp add: unencodable_deps_def plain_deps_def)
  have newsvc': "\<forall>m. NewListMetricsService unencodable_deps m \<noteq> None"
    by (simp add: unencodable_deps_def plain_deps_def)
  note ok = DimensionKeysHandler_body_or_error [OF marshal newerr newsvc,
      where pluginCtx = "()" and reqCtxFactory = plain_factory]
  note ok' = DimensionKeysHandler_body_or_error [OF marshal' newerr' newsvc',
      where pluginCtx = "()" and reqCtxFactory = plain_factory]
  let ?good = "[(''region'', [''us-east-1'']), (''namespace'', [''AWS/EC2''])]"
  have p1: "GetDimensionKeysRequest plain_deps [(''namespace'', [''AWS/EC2''])]
              = (([], [], False), Some (errorString ''region is required''))"
    by (simp add: plain_deps_def parse_plain_def)
  have a: "DimensionKeysHandler plain_deps (newListMetricsService plain_deps) () plain_factory
     [(''namespace'', [''AWS/EC2''])]
     = Returns (None,
         Some \<lparr>Message = ''error in DimensionKeyHandler'', Error = ''region is required'',
               StatusCode = 400\<rparr>)"
    using ok [where parameters = "[(''namespace'', [''AWS/EC2''])]", THEN conjunct2,
        THEN conjunct1, rule_format, OF p1]
    by (auto simp: plain_deps_def)
  have p2: "GetDimensionKeysRequest plain_deps
              [(''region'', [''eu-west-1'']), (''namespace'', [''AWS/EC2''])]
              = ((''eu-west-1'', ''AWS/EC2'', False), None)
            \<and> plain_factory () (Region plain_deps (''eu-west-1'', ''AWS/EC2'', False))
              = (\<lparr>MetricsClientProvider = ()\<rparr>, Some (errorString ''no client for region''))"
    by (simp add: plain_deps_def parse_plain_def plain_factory_def)
  have b: "DimensionKeysHandler plain_deps (newListMetricsService plain_deps) () plain_factory
     [(''region'', [''eu-west-1'']), (''namespace'', [''AWS/EC2''])]
     = Returns (None,
         Some \<lparr>Message = ''error in DimensionKeyHandler'', Error = ''no client for region'',
               StatusCode = 500\<rparr>)"
    using ok [where parameters = "[(''region'', [''eu-west-1'']), (''namespace'', [''AWS/EC2''])]",
        THEN conjunct2, THEN conjunct2, THEN conjunct1, rule_format, OF p2]
    by (auto simp: plain_deps_def)
  have p3: "GetDimensionKeysRequest plain_deps
              [(''region'', [''us-east-1'']), (''namespace'', [''AWS/S3''])]
              = ((''us-east-1'', ''AWS/S3'', False), None)
            \<and> plain_factory () (Region plain_deps (''us-east-1'', ''AWS/S3'', False))
              = (\<lparr>MetricsClientProvider = ()\<rparr>, None)
            \<and> NewListMetricsService plain_deps (MetricsClientProvider \<lparr>MetricsClientProvider = ()\<rparr>)
              = Some ()
            \<and> (if Type plain_deps (''us-east-1'', ''AWS/S3'', False)
                    = FilterDimensionKeysRequest plain_deps
                then GetDimensionKeysByDimensionFilter plain_deps ()
                       (''us-east-1'', ''AWS/S3'', False)
                else GetHardCodedDimensionKeysByNamespace plain_deps
                       (Namespace plain_deps (''us-east-1'', ''AWS/S3'', False)))
              = (None, Some (errorString ''unable to find dimensions for namespace''))"
    by (simp add: plain_deps_def parse_plain_def plain_factory_def)
  have c: "DimensionKeysHandler plain_deps (newListMetricsService plain_deps) () plain_factory
     [(''region'', [''us-east-1'']), (''namespace'', [''AWS/S3''])]
     = Returns (None,
         Some \<lparr>Message = ''error in DimensionKeyHandler'',
               Error = ''unable to find dimensions for namespace'', StatusCode = 500\<rparr>)"
    using ok [where parameters = "[(''region'', [''us-east-1'']), (''namespace'', [''AWS/S3''])]",
        THEN conjunct2, THEN conjunct2, THEN conjunct2, THEN conjunct1, rule_format, OF p3]
    by (auto simp: plain_deps_def)
  have p4: "GetDimensionKeysRequest plain_deps ?good = ((''us-east-1'', ''AWS/EC2'', False), None)
            \<and> plain_factory () (Region plain_deps (''us-east-1'', ''AWS/EC2'', False))
              = (\<lparr>MetricsClientProvider = ()\<rparr>, None)
            \<and> NewListMetricsService plain_deps (MetricsClientProvider \<lparr>MetricsClientProvider = ()\<rparr>)
              = Some ()
            \<and> (if Type plain_deps (''us-east-1'', ''AWS/EC2'', False)
                    = FilterDimensionKeysRequest plain_deps
                then GetDimensionKeysByDimensionFilter plain_deps ()
                       (''us-east-1'', ''AWS/EC2'', False)
                else GetHardCodedDimensionKeysByNamespace plain_deps
                       (Namespace plain_deps (''us-east-1'', ''AWS/EC2'', False)))
              = (Some [''AutoScalingGroupName'', ''InstanceId''], None)
            \<and> json_Marshal plain_deps (Some [''AutoScalingGroupName'', ''InstanceId''])
              = (Some (''['' @ join_quoted [''AutoScalingGroupName'', ''InstanceId''] @ '']''),
                 None)"
    by (simp add: plain_deps_def parse_plain_def plain_factory_def marshal_plain_def)
  have d: "DimensionKeysHandler plain_deps (newListMetricsService plain_deps) () plain_factory
     ?good
     = Returns (Some (''['' @ join_quoted [''AutoScalingGroupName'', ''InstanceId''] @ '']''),
         None)"
    using ok [where parameters = ?good,
        THEN conjunct2, THEN conjunct2, THEN conjunct2, THEN conjunct2, THEN conjunct2,
        rule_format, OF p4]
    by blast
  have p5: "GetDimensionKeysRequest unencodable_deps ?good
              = ((''us-east-1'', ''AWS/EC2'', False), None)
            \<and> plain_factory () (Region unencodable_deps (''us-east-1'', ''AWS/EC2'', False))
              = (\<lparr>MetricsClientProvider = ()\<rparr>, None)
            \<and> NewListMetricsService unencodable_deps
                (MetricsClientProvider \<lparr>MetricsClientProvider = ()\<rparr>) = Some ()
            \<and> (if Type unencodable_deps (''us-east-1'', ''AWS/EC2'', False)
                    = FilterDimensionKeysRequest unencodable_deps
                then GetDimensionKeysByDimensionFilter unencodable_deps ()
                       (''us-east-1'', ''AWS/EC2'', False)
                else GetHardCodedDimensionKeysByNamespace unencodable_deps
                       (Namespace unencodable_deps (''us-east-1'', ''AWS/EC2'', False)))
              = (Some [''AutoScalingGroupName'', ''InstanceId''], None)
            \<and> json_Marshal unencodable_deps (Some [''AutoScalingGroupName'', ''InstanceId''])
              = (None, Some (errorString ''json: unsupported value''))"
    by (simp add: unencodable_deps_def plain_deps_def parse_plain_def plain_factory_def)
  have e: "DimensionKeysHandler unencodable_deps (newListMetricsService unencodable_deps) ()
       plain_factory ?good
     = Returns (None,
         Some \<lparr>Message = ''error in DimensionKeyHandler'',
               Error = ''json: unsupported value'', StatusCode = 500\<rparr>)"
    using ok' [where parameters = ?good,
        THEN conjunct2, THEN conjunct2, THEN conjunct2, THEN conjunct2, THEN conjunct1,
        rule_format, OF p5]
    by (auto simp: unencodable_deps_def plain_deps_def)
  from a b c d e show ?thesis by blast
qed

end
